theory Spec2Isabelle
  imports Complex_Main
begin

section \<open>The data of \<open>SystemOperatingPoint.h\<close>\<close>

text \<open>
  The class template \<open>SystemOperatingPoint<STATE_DIM, INPUT_DIM, LOGIC_RULES_T>\<close> takes
  its scalar and vector types from its base class
  \<open>SystemOperatingTrajectoriesBase\<close>, whose header is not among the sources. They are
  type parameters here:
  \<^item> \<open>'t\<close> is \<open>scalar_t\<close>, the type of a time stamp;
  \<^item> \<open>'s\<close> is \<open>state_vector_t\<close> and \<open>'u\<close> is \<open>input_vector_t\<close>;
  \<^item> \<open>'l\<close> is what a \<open>LogicRulesMachine<LOGIC_RULES_T>&\<close> refers to;
  \<^item> \<open>'b\<close> is the state of the base-class subobject, whatever the base class keeps.
  The array types \<open>scalar_array_t\<close>, \<open>state_vector_array_t\<close> and
  \<open>input_vector_array_t\<close> are \<open>std::vector\<close>s, modelled as lists.
  Nothing in the class computes with a scalar: values are only copied, so no property
  below depends on floating-point arithmetic. Where a claim compares two time stamps,
  the comparison is that of the type class named in the theorem.
\<close>

type_synonym size_t = nat

text \<open>
  The three output parameters \<open>timeTrajectory\<close>, \<open>stateTrajectory\<close> and
  \<open>inputTrajectory\<close> of \<open>getSystemOperatingTrajectories\<close> are passed by reference and
  updated in place. They are three distinct containers; the record holds their contents
  and a call returns the record updated.
\<close>

record ('t, 's, 'u) trajectories =
  timeTrajectory :: "'t list"
  stateTrajectory :: "'s list"
  inputTrajectory :: "'u list"

text \<open>
  An object of the class: the base-class subobject and the two protected members
  \<open>stateOperatingPoint_\<close> and \<open>inputOperatingPoint_\<close>. A name cannot end with an
  underscore here, so the two fields carry the suffix \<open>m\<close>.
\<close>

record ('b, 's, 'u) SystemOperatingPoint =
  Base :: 'b
  stateOperatingPoint_m :: 's
  inputOperatingPoint_m :: 'u

subsection \<open>The two \<open>std::vector\<close> operations the class uses\<close>

definition clear :: "'a list \<Rightarrow> 'a list" where
  "clear v = []"

definition emplace_back :: "'a \<Rightarrow> 'a list \<Rightarrow> 'a list" where
  "emplace_back x v = v @ [x]"

subsection \<open>Constructors\<close>

text \<open>
  \<open>SystemOperatingPoint(stateOperatingPoint, inputOperatingPoint)\<close> copies its two
  arguments into the members; the base-class subobject is default-constructed, and
  \<open>Base_ctor\<close> stands for the value the base's default constructor leaves.
\<close>

definition SystemOperatingPoint_ctor ::
  "'b \<Rightarrow> 's \<Rightarrow> 'u \<Rightarrow> ('b, 's, 'u) SystemOperatingPoint" where
  "SystemOperatingPoint_ctor Base_ctor stateOperatingPoint inputOperatingPoint =
     \<lparr>Base = Base_ctor,
      stateOperatingPoint_m = stateOperatingPoint,
      inputOperatingPoint_m = inputOperatingPoint\<rparr>"

text \<open>
  \<open>state_vector_t::Zero()\<close> and \<open>input_vector_t::Zero()\<close> are the fixed-size vectors of
  \<open>STATE_DIM\<close> and \<open>INPUT_DIM\<close> zero coefficients. For the default constructor a
  fixed-size vector is the list of its coefficients.
\<close>

definition Zero :: "size_t \<Rightarrow> ('t::zero) list" where
  "Zero DIM = replicate DIM 0"

text \<open>The default constructor delegates to the other one.\<close>

definition SystemOperatingPoint_default ::
  "size_t \<Rightarrow> size_t \<Rightarrow> 'b \<Rightarrow> ('b, ('t::zero) list, 't list) SystemOperatingPoint" where
  "SystemOperatingPoint_default STATE_DIM INPUT_DIM Base_ctor =
     SystemOperatingPoint_ctor Base_ctor (Zero STATE_DIM) (Zero INPUT_DIM)"

subsection \<open>\<open>initializeModel\<close>\<close>

text \<open>
  \<open>initializeModel\<close> only calls \<open>Base::initializeModel\<close> with its three arguments.
  That function is in the missing header, so it is the parameter
  \<open>Base_initializeModel\<close>: a function that, given the arguments, updates the
  base-class subobject. \<open>algorithmName\<close> is a \<open>const char*\<close> that defaults to
  \<open>NULL\<close>, an optional string.
\<close>

definition initializeModel ::
  "('l \<Rightarrow> size_t \<Rightarrow> string option \<Rightarrow> 'b \<Rightarrow> 'b) \<Rightarrow>
   'l \<Rightarrow> size_t \<Rightarrow> string option \<Rightarrow>
   ('b, 's, 'u) SystemOperatingPoint \<Rightarrow> ('b, 's, 'u) SystemOperatingPoint" where
  "initializeModel Base_initializeModel logicRulesMachine partitionIndex algorithmName this =
     this\<lparr>Base := Base_initializeModel logicRulesMachine partitionIndex algorithmName (Base this)\<rparr>"

subsection \<open>\<open>getSystemOperatingTrajectories\<close>\<close>

text \<open>
  The method is not \<open>const\<close>, so the model returns the object together with the
  containers; the body assigns to no member. Each \<open>let\<close> is one statement of the
  source, in the source's order.
\<close>

definition getSystemOperatingTrajectories ::
  "('b, 's, 'u) SystemOperatingPoint \<Rightarrow> 's \<Rightarrow> 't \<Rightarrow> 't \<Rightarrow>
   ('t, 's, 'u) trajectories \<Rightarrow> bool \<Rightarrow>
   ('b, 's, 'u) SystemOperatingPoint \<times> ('t, 's, 'u) trajectories" where
  "getSystemOperatingTrajectories this initialState startTime finalTime out concatOutput =
     (let out = (if concatOutput = False
                 then out\<lparr>timeTrajectory := clear (timeTrajectory out),
                          stateTrajectory := clear (stateTrajectory out),
                          inputTrajectory := clear (inputTrajectory out)\<rparr>
                 else out);
          out = out\<lparr>timeTrajectory := emplace_back startTime (timeTrajectory out)\<rparr>;
          out = out\<lparr>timeTrajectory := emplace_back finalTime (timeTrajectory out)\<rparr>;
          out = out\<lparr>stateTrajectory :=
                      emplace_back (stateOperatingPoint_m this) (stateTrajectory out)\<rparr>;
          out = out\<lparr>stateTrajectory :=
                      emplace_back (stateOperatingPoint_m this) (stateTrajectory out)\<rparr>;
          out = out\<lparr>inputTrajectory :=
                      emplace_back (inputOperatingPoint_m this) (inputTrajectory out)\<rparr>;
          out = out\<lparr>inputTrajectory :=
                      emplace_back (inputOperatingPoint_m this) (inputTrajectory out)\<rparr>
      in (this, out))"

subsection \<open>\<open>clone\<close>\<close>

text \<open>
  \<open>clone\<close> is \<open>new SystemOperatingPoint(*this)\<close>: it allocates a new object and
  runs the implicit copy constructor, which copies the base-class subobject with the
  base's copy constructor (the parameter \<open>Base_copy\<close>) and each of the two members.
\<close>

definition SystemOperatingPoint_copy ::
  "('b \<Rightarrow> 'b) \<Rightarrow> ('b, 's, 'u) SystemOperatingPoint \<Rightarrow> ('b, 's, 'u) SystemOperatingPoint" where
  "SystemOperatingPoint_copy Base_copy other =
     \<lparr>Base = Base_copy (Base other),
      stateOperatingPoint_m = stateOperatingPoint_m other,
      inputOperatingPoint_m = inputOperatingPoint_m other\<rparr>"

text \<open>
  Whether two objects share storage is a question about addresses, so objects live in
  a store: the list of the objects allocated so far, a pointer being an index into it.
  \<open>operator_new\<close> puts an object at the next free address and returns that address.
  A method called through a pointer to no object has no defined behaviour; the model
  returns \<open>None\<close> there.
\<close>

type_synonym ('b, 's, 'u) store = "('b, 's, 'u) SystemOperatingPoint list"

definition operator_new ::
  "('b, 's, 'u) store \<Rightarrow> ('b, 's, 'u) SystemOperatingPoint \<Rightarrow> nat \<times> ('b, 's, 'u) store" where
  "operator_new h obj = (length h, h @ [obj])"

definition clone ::
  "('b \<Rightarrow> 'b) \<Rightarrow> ('b, 's, 'u) store \<Rightarrow> nat \<Rightarrow> (nat \<times> ('b, 's, 'u) store) option" where
  "clone Base_copy h this =
     (if this < length h
      then Some (operator_new h (SystemOperatingPoint_copy Base_copy (h ! this)))
      else None)"

text \<open>The two other methods, called through a pointer into the store.\<close>

definition initializeModel_at ::
  "('l \<Rightarrow> size_t \<Rightarrow> string option \<Rightarrow> 'b \<Rightarrow> 'b) \<Rightarrow>
   'l \<Rightarrow> size_t \<Rightarrow> string option \<Rightarrow> nat \<Rightarrow> ('b, 's, 'u) store \<Rightarrow>
   ('b, 's, 'u) store option" where
  "initializeModel_at Base_initializeModel logicRulesMachine partitionIndex algorithmName this h =
     (if this < length h
      then Some (h[this := initializeModel Base_initializeModel logicRulesMachine
                             partitionIndex algorithmName (h ! this)])
      else None)"

definition getSystemOperatingTrajectories_at ::
  "nat \<Rightarrow> ('b, 's, 'u) store \<Rightarrow> 's \<Rightarrow> 't \<Rightarrow> 't \<Rightarrow> ('t, 's, 'u) trajectories \<Rightarrow> bool \<Rightarrow>
   (('b, 's, 'u) store \<times> ('t, 's, 'u) trajectories) option" where
  "getSystemOperatingTrajectories_at this h initialState startTime finalTime out concatOutput =
     (if this < length h
      then (case getSystemOperatingTrajectories (h ! this) initialState startTime finalTime
                   out concatOutput of
              (obj, out') \<Rightarrow> Some (h[this := obj], out'))
      else None)"

text \<open>What a caller sees of such a call: the containers it passed, updated.\<close>

definition trajectories_at ::
  "nat \<Rightarrow> ('b, 's, 'u) store \<Rightarrow> 's \<Rightarrow> 't \<Rightarrow> 't \<Rightarrow> ('t, 's, 'u) trajectories \<Rightarrow> bool \<Rightarrow>
   ('t, 's, 'u) trajectories option" where
  "trajectories_at this h initialState startTime finalTime out concatOutput =
     map_option snd
       (getSystemOperatingTrajectories_at this h initialState startTime finalTime out concatOutput)"

subsection \<open>Sequences of calls\<close>

text \<open>
  The caller binds an object and asks it for trajectories any number of times, reusing
  its three containers. A call is one of the two state-changing methods with its
  arguments; \<open>calls\<close> runs a list of them, in order, on an object and the containers.
\<close>

datatype ('l, 's, 't) call =
  InitializeModel 'l size_t "string option"
| GetSystemOperatingTrajectories 's 't 't bool

fun call_step ::
  "('l \<Rightarrow> size_t \<Rightarrow> string option \<Rightarrow> 'b \<Rightarrow> 'b) \<Rightarrow> ('l, 's, 't) call \<Rightarrow>
   ('b, 's, 'u) SystemOperatingPoint \<times> ('t, 's, 'u) trajectories \<Rightarrow>
   ('b, 's, 'u) SystemOperatingPoint \<times> ('t, 's, 'u) trajectories" where
  "call_step Base_initializeModel (InitializeModel logicRulesMachine partitionIndex algorithmName)
     (this, out) =
     (initializeModel Base_initializeModel logicRulesMachine partitionIndex algorithmName this, out)"
| "call_step Base_initializeModel
     (GetSystemOperatingTrajectories initialState startTime finalTime concatOutput) (this, out) =
     getSystemOperatingTrajectories this initialState startTime finalTime out concatOutput"

fun calls ::
  "('l \<Rightarrow> size_t \<Rightarrow> string option \<Rightarrow> 'b \<Rightarrow> 'b) \<Rightarrow> ('l, 's, 't) call list \<Rightarrow>
   ('b, 's, 'u) SystemOperatingPoint \<times> ('t, 's, 'u) trajectories \<Rightarrow>
   ('b, 's, 'u) SystemOperatingPoint \<times> ('t, 's, 'u) trajectories" where
  "calls Base_initializeModel [] st = st"
| "calls Base_initializeModel (c # cs) st =
     calls Base_initializeModel cs (call_step Base_initializeModel c st)"

subsection \<open>The base class, as the specification describes it\<close>

text \<open>
  Modelled from the spec: the base class \<open>SystemOperatingTrajectoriesBase\<close>, whose
  header is missing. Binding "stores the lookup reference and partition index", and
  re-binding "simply overwrites prior binding"; an object is not bound until then.
  The theorems below hold for every base class; this one gives them a concrete
  instance to be evaluated on.
\<close>

record 'l SystemOperatingTrajectoriesBase =
  binding :: "('l \<times> size_t) option"

definition Base_unbound :: "'l SystemOperatingTrajectoriesBase" where
  "Base_unbound = \<lparr>binding = None\<rparr>"

definition Base_bind ::
  "'l \<Rightarrow> size_t \<Rightarrow> string option \<Rightarrow>
   'l SystemOperatingTrajectoriesBase \<Rightarrow> 'l SystemOperatingTrajectoriesBase" where
  "Base_bind logicRulesMachine partitionIndex algorithmName b =
     b\<lparr>binding := Some (logicRulesMachine, partitionIndex)\<rparr>"

section \<open>The properties the specification names\<close>

text \<open>
  A time sequence is non-decreasing when no sample is followed by a smaller one.
\<close>

fun non_decreasing :: "('t::ord) list \<Rightarrow> bool" where
  "non_decreasing (x # y # ts) = (x \<le> y \<and> non_decreasing (y # ts))"
| "non_decreasing ts = True"

text \<open>The trajectory invariant of the data model: three sequences of one length.\<close>

definition aligned :: "('t, 's, 'u) trajectories \<Rightarrow> bool" where
  "aligned out \<longleftrightarrow>
     length (timeTrajectory out) = length (stateTrajectory out) \<and>
     length (stateTrajectory out) = length (inputTrajectory out)"

text \<open>
  The specification's "all-zero vector" of a given dimension: that many coefficients,
  each of them zero.
\<close>

definition all_zero_vector :: "size_t \<Rightarrow> ('t::zero) list \<Rightarrow> bool" where
  "all_zero_vector DIM v \<longleftrightarrow> length v = DIM \<and> (\<forall>x \<in> set v. x = 0)"

section \<open>What a call leaves in the containers\<close>

lemma getSystemOperatingTrajectories_override:
  "getSystemOperatingTrajectories this initialState startTime finalTime out False =
     (this, \<lparr>timeTrajectory = [startTime, finalTime],
             stateTrajectory = [stateOperatingPoint_m this, stateOperatingPoint_m this],
             inputTrajectory = [inputOperatingPoint_m this, inputOperatingPoint_m this]\<rparr>)"
  by (simp add: getSystemOperatingTrajectories_def clear_def emplace_back_def)

lemma getSystemOperatingTrajectories_concat:
  "getSystemOperatingTrajectories this initialState startTime finalTime out True =
     (this, \<lparr>timeTrajectory = timeTrajectory out @ [startTime, finalTime],
             stateTrajectory =
               stateTrajectory out @ [stateOperatingPoint_m this, stateOperatingPoint_m this],
             inputTrajectory =
               inputTrajectory out @ [inputOperatingPoint_m this, inputOperatingPoint_m this]\<rparr>)"
  by (simp add: getSystemOperatingTrajectories_def emplace_back_def)

lemma getSystemOperatingTrajectories_cases:
  "getSystemOperatingTrajectories this initialState startTime finalTime out concatOutput =
     (this, \<lparr>timeTrajectory =
               (if concatOutput then timeTrajectory out else []) @ [startTime, finalTime],
             stateTrajectory =
               (if concatOutput then stateTrajectory out else [])
               @ [stateOperatingPoint_m this, stateOperatingPoint_m this],
             inputTrajectory =
               (if concatOutput then inputTrajectory out else [])
               @ [inputOperatingPoint_m this, inputOperatingPoint_m this]\<rparr>)"
  by (cases concatOutput)
     (simp_all add: getSystemOperatingTrajectories_override getSystemOperatingTrajectories_concat)

lemma getSystemOperatingTrajectories_this:
  "fst (getSystemOperatingTrajectories this initialState startTime finalTime out concatOutput) = this"
  by (simp add: getSystemOperatingTrajectories_cases)

lemma initializeModel_members:
  "stateOperatingPoint_m (initializeModel B l p a this) = stateOperatingPoint_m this"
  "inputOperatingPoint_m (initializeModel B l p a this) = inputOperatingPoint_m this"
  by (simp_all add: initializeModel_def)

lemma call_step_members:
  "stateOperatingPoint_m (fst (call_step B c st)) = stateOperatingPoint_m (fst st)"
  "inputOperatingPoint_m (fst (call_step B c st)) = inputOperatingPoint_m (fst st)"
  by (cases c; cases st;
      simp add: initializeModel_members getSystemOperatingTrajectories_this)+

lemma calls_members:
  "stateOperatingPoint_m (fst (calls B cs st)) = stateOperatingPoint_m (fst st) \<and>
   inputOperatingPoint_m (fst (calls B cs st)) = inputOperatingPoint_m (fst st)"
  by (induction cs arbitrary: st) (simp_all add: call_step_members)

lemma output_depends_on_members_only:
  assumes "stateOperatingPoint_m a = stateOperatingPoint_m b"
    and "inputOperatingPoint_m a = inputOperatingPoint_m b"
  shows "snd (getSystemOperatingTrajectories a x1 startTime finalTime out concatOutput) =
         snd (getSystemOperatingTrajectories b x2 startTime finalTime out concatOutput)"
  using assms by (simp add: getSystemOperatingTrajectories_cases)

lemma non_decreasing_append2:
  "non_decreasing (ts @ [a, b]) \<longleftrightarrow>
     non_decreasing ts \<and> (ts \<noteq> [] \<longrightarrow> last ts \<le> a) \<and> a \<le> b"
  by (induction ts rule: non_decreasing.induct) auto

lemma non_decreasing_sorted:
  fixes ts :: "('t::linorder) list"
  shows "non_decreasing ts = sorted ts"
  by (induction ts rule: non_decreasing.induct) (auto intro: order_trans)

lemma all_zero_vector_Zero: "all_zero_vector DIM v \<longleftrightarrow> v = Zero DIM"
  unfolding all_zero_vector_def Zero_def
  by (auto simp: replicate_eqI)

lemma trajectories_at_valid:
  "this < length h \<Longrightarrow>
   trajectories_at this h initialState startTime finalTime out concatOutput =
     Some (snd (getSystemOperatingTrajectories (h ! this) initialState startTime finalTime
                  out concatOutput))"
  by (simp add: trajectories_at_def getSystemOperatingTrajectories_at_def
      getSystemOperatingTrajectories_cases)

lemma getSystemOperatingTrajectories_at_store:
  "this < length h \<Longrightarrow>
   map_option fst
     (getSystemOperatingTrajectories_at this h initialState startTime finalTime out concatOutput) =
     Some h"
  by (simp add: getSystemOperatingTrajectories_at_def getSystemOperatingTrajectories_cases)

lemma copy_members:
  "stateOperatingPoint_m (SystemOperatingPoint_copy Base_copy other) = stateOperatingPoint_m other"
  "inputOperatingPoint_m (SystemOperatingPoint_copy Base_copy other) = inputOperatingPoint_m other"
  by (simp_all add: SystemOperatingPoint_copy_def)

section \<open>Verified properties\<close>

text \<open>
  C1. For every \<open>startTime \<le> finalTime\<close>, every operating point the object was
  constructed with and every prior contents of the three containers, a call with
  \<open>concatOutput = false\<close> leaves each container with exactly two elements: the times
  \<open>[startTime, finalTime]\<close>, the state operating point twice and the input operating
  point twice.
\<close>

theorem override_yields_two_samples:
  fixes startTime finalTime :: "'t::ord"
  assumes "startTime \<le> finalTime"
  shows "let out' = snd (getSystemOperatingTrajectories
                          (SystemOperatingPoint_ctor Base_ctor stateOperatingPoint inputOperatingPoint)
                          initialState startTime finalTime out False)
         in length (timeTrajectory out') = 2 \<and>
            length (stateTrajectory out') = 2 \<and>
            length (inputTrajectory out') = 2 \<and>
            timeTrajectory out' = [startTime, finalTime] \<and>
            stateTrajectory out' = [stateOperatingPoint, stateOperatingPoint] \<and>
            inputTrajectory out' = [inputOperatingPoint, inputOperatingPoint]"
  by (simp add: getSystemOperatingTrajectories_override SystemOperatingPoint_ctor_def)

theorem override_yields_two_samples_witness:
  "(0::real) \<le> 2 \<and>
   snd (getSystemOperatingTrajectories
          (SystemOperatingPoint_ctor () [1, -1::real] [1/2::real])
          [7, 7::real] (0::real) 2
          \<lparr>timeTrajectory = [9, 8, 7], stateTrajectory = [[0, 0]], inputTrajectory = []\<rparr>
          False)
   = \<lparr>timeTrajectory = [0, 2],
      stateTrajectory = [[1, -1], [1, -1]],
      inputTrajectory = [[1/2], [1/2]]\<rparr>"
proof -
  have le: "(0::real) \<le> 2" by simp
  show ?thesis
    using override_yields_two_samples
      [OF le, where Base_ctor = "()" and stateOperatingPoint = "[1, -1::real]"
        and inputOperatingPoint = "[1/2::real]" and initialState = "[7, 7::real]"
        and out = "\<lparr>timeTrajectory = [9, 8, 7::real], stateTrajectory = [[0, 0::real]],
                     inputTrajectory = []\<rparr>"]
    by (simp add: Let_def trajectories.equality)
qed

text \<open>
  C2. Two runs on objects with the same operating point, the same \<open>startTime\<close>,
  \<open>finalTime\<close> and \<open>concatOutput\<close> and the same prior contents of the containers
  leave the same contents, whatever \<open>initialState\<close> each run is given and whatever
  the base-class subobject of each object holds. The logic rules machine is no argument
  of the method: it could reach it only through that subobject, where
  \<open>initializeModel\<close> hands it to the base class. The second equation says the same
  of two objects after any two histories of calls, bound to whichever machine and
  partition index, or to none.
\<close>

theorem output_ignores_initialState_and_binding:
  assumes "stateOperatingPoint_m a = stateOperatingPoint_m b"
    and "inputOperatingPoint_m a = inputOperatingPoint_m b"
  shows "snd (getSystemOperatingTrajectories a initialState startTime finalTime out concatOutput) =
         snd (getSystemOperatingTrajectories b initialState' startTime finalTime out concatOutput)
       \<and> snd (getSystemOperatingTrajectories
                (fst (calls Base_initializeModel cs (a, out0)))
                initialState startTime finalTime out concatOutput) =
         snd (getSystemOperatingTrajectories
                (fst (calls Base_initializeModel' cs' (b, out0')))
                initialState' startTime finalTime out concatOutput)"
  using assms
  by (simp add: output_depends_on_members_only [of a b] calls_members
      output_depends_on_members_only [of "fst (calls Base_initializeModel cs (a, out0))"
         "fst (calls Base_initializeModel' cs' (b, out0'))"])


theorem output_ignores_initialState_and_binding_witness:
  "(let a = SystemOperatingPoint_ctor (Base_unbound :: string SystemOperatingTrajectoriesBase)
              [1, -1::real] [1/2::real];
        b = initializeModel Base_bind ''lookup'' 3 None a;
        out = \<lparr>timeTrajectory = [-1::real], stateTrajectory = [[3, 3]], inputTrajectory = [[4]]\<rparr>
    in stateOperatingPoint_m a = stateOperatingPoint_m b \<and>
       inputOperatingPoint_m a = inputOperatingPoint_m b \<and>
       snd (getSystemOperatingTrajectories a [0, 0] 0 2 out True) =
       snd (getSystemOperatingTrajectories b [5, 6] 0 2 out True) \<and>
       snd (getSystemOperatingTrajectories
              (fst (calls Base_bind [InitializeModel ''other'' 1 (Some ''SLQ'')] (a, out)))
              [0, 0] 0 2 out True) =
       snd (getSystemOperatingTrajectories
              (fst (calls Base_bind
                      [GetSystemOperatingTrajectories [0, 0] 4 5 False,
                       InitializeModel ''lookup'' 0 None] (b, out)))
              [5, 6] 0 2 out True))"
proof -
  let ?a = "SystemOperatingPoint_ctor (Base_unbound :: string SystemOperatingTrajectoriesBase)
              [1, -1::real] [1/2::real]"
  let ?b = "initializeModel Base_bind ''lookup'' 3 None ?a"
  let ?out = "\<lparr>timeTrajectory = [-1::real], stateTrajectory = [[3, 3::real]],
               inputTrajectory = [[4::real]]\<rparr>"
  have s: "stateOperatingPoint_m ?a = stateOperatingPoint_m ?b"
    and i: "inputOperatingPoint_m ?a = inputOperatingPoint_m ?b"
    by (simp_all add: initializeModel_def)
  show ?thesis
    using s i
      output_ignores_initialState_and_binding
        [OF s i, where initialState = "[0, 0]" and initialState' = "[5, 6]"
           and startTime = 0 and finalTime = 2 and out = ?out and concatOutput = True
           and Base_initializeModel = Base_bind and Base_initializeModel' = Base_bind
           and cs = "[InitializeModel ''other'' 1 (Some ''SLQ'')]" and out0 = ?out
           and cs' = "[GetSystemOperatingTrajectories [0, 0] 4 5 False,
                       InitializeModel ''lookup'' 0 None]" and out0' = ?out]
    by (simp only: Let_def simp_thms)
qed

text \<open>
  C3. With \<open>concatOutput = true\<close> each of the three sequences grows by exactly two
  elements, every element that was there keeps its value and its position, and the two
  new elements are the samples of this call. With \<open>concatOutput = false\<close> nothing
  of the prior contents is left: each sequence holds the two samples of this call and
  no other element, which is what the appending call leaves in three empty containers.
\<close>

theorem concat_appends_and_override_clears:
  "(let out' = snd (getSystemOperatingTrajectories this initialState startTime finalTime out True)
    in length (timeTrajectory out') = length (timeTrajectory out) + 2 \<and>
       length (stateTrajectory out') = length (stateTrajectory out) + 2 \<and>
       length (inputTrajectory out') = length (inputTrajectory out) + 2 \<and>
       (\<forall>i < length (timeTrajectory out). timeTrajectory out' ! i = timeTrajectory out ! i) \<and>
       (\<forall>i < length (stateTrajectory out). stateTrajectory out' ! i = stateTrajectory out ! i) \<and>
       (\<forall>i < length (inputTrajectory out). inputTrajectory out' ! i = inputTrajectory out ! i) \<and>
       drop (length (timeTrajectory out)) (timeTrajectory out') = [startTime, finalTime] \<and>
       drop (length (stateTrajectory out)) (stateTrajectory out') =
         [stateOperatingPoint_m this, stateOperatingPoint_m this] \<and>
       drop (length (inputTrajectory out)) (inputTrajectory out') =
         [inputOperatingPoint_m this, inputOperatingPoint_m this])
   \<and> snd (getSystemOperatingTrajectories this initialState startTime finalTime out False) =
       \<lparr>timeTrajectory = [startTime, finalTime],
        stateTrajectory = [stateOperatingPoint_m this, stateOperatingPoint_m this],
        inputTrajectory = [inputOperatingPoint_m this, inputOperatingPoint_m this]\<rparr>
   \<and> snd (getSystemOperatingTrajectories this initialState startTime finalTime out False) =
     snd (getSystemOperatingTrajectories this initialState startTime finalTime
            \<lparr>timeTrajectory = [], stateTrajectory = [], inputTrajectory = []\<rparr> True)"
  by (simp add: getSystemOperatingTrajectories_cases Let_def nth_append)

theorem concat_appends_and_override_clears_witness:
  "(let out = \<lparr>timeTrajectory = [0, 1::real], stateTrajectory = [[9::real], [8]],
               inputTrajectory = [[7::real], [6]]\<rparr>;
        out' = snd (getSystemOperatingTrajectories
                      (SystemOperatingPoint_ctor Base_unbound [5] [4]) [0] 1 2 out True)
    in out' = \<lparr>timeTrajectory = [0, 1, 1, 2], stateTrajectory = [[9], [8], [5], [5]],
               inputTrajectory = [[7], [6], [4], [4]]\<rparr> \<and>
       timeTrajectory out' ! 1 = timeTrajectory out ! 1 \<and>
       snd (getSystemOperatingTrajectories
              (SystemOperatingPoint_ctor Base_unbound [5] [4]) [0] 1 2 out False) =
         \<lparr>timeTrajectory = [1, 2], stateTrajectory = [[5], [5]],
          inputTrajectory = [[4], [4]]\<rparr>)"
  using concat_appends_and_override_clears
    [of "SystemOperatingPoint_ctor Base_unbound [5::real] [4::real]" "[0]" "1::real" 2
        "\<lparr>timeTrajectory = [0, 1::real], stateTrajectory = [[9::real], [8]],
          inputTrajectory = [[7::real], [6]]\<rparr>"]
  by (simp add: Let_def getSystemOperatingTrajectories_cases SystemOperatingPoint_ctor_def)

text \<open>
  C4. Two calls in succession on the same object with the same arguments and
  \<open>concatOutput = false\<close>, the second on the containers the first has left: the
  second leaves the containers, and the object, as the first left them.
\<close>

theorem override_twice_same_output:
  "(let first = getSystemOperatingTrajectories this initialState startTime finalTime out False;
        second = getSystemOperatingTrajectories (fst first) initialState startTime finalTime
                   (snd first) False
    in snd second = snd first \<and> fst second = fst first)"
  by (simp add: getSystemOperatingTrajectories_override Let_def)

text \<open>
  C5. \<open>clone\<close> returns a pointer to a new object, at an address no object had, with
  the operating point of the original, and leaves the original as it was. From then on
  a call of \<open>getSystemOperatingTrajectories\<close> on either of the two gives the same
  result whether or not the other has been overwritten with any value \<open>v\<close> or bound
  again with \<open>initializeModel\<close>.
\<close>

theorem clone_is_independent:
  assumes "this < length h"
  shows "case clone Base_copy h this of
           None \<Rightarrow> False
         | Some (c, h') \<Rightarrow>
             c \<noteq> this \<and> length h \<le> c \<and> c < length h' \<and> this < length h' \<and>
             h' ! this = h ! this \<and>
             stateOperatingPoint_m (h' ! c) = stateOperatingPoint_m (h ! this) \<and>
             inputOperatingPoint_m (h' ! c) = inputOperatingPoint_m (h ! this) \<and>
             trajectories_at this h' initialState startTime finalTime out concatOutput \<noteq> None \<and>
             trajectories_at c h' initialState startTime finalTime out concatOutput =
               trajectories_at this h' initialState startTime finalTime out concatOutput \<and>
             trajectories_at this (h'[c := v]) initialState startTime finalTime out concatOutput =
               trajectories_at this h' initialState startTime finalTime out concatOutput \<and>
             trajectories_at c (h'[this := v]) initialState startTime finalTime out concatOutput =
               trajectories_at c h' initialState startTime finalTime out concatOutput \<and>
             (case initializeModel_at Base_initializeModel logicRulesMachine partitionIndex
                     algorithmName c h' of
                None \<Rightarrow> False
              | Some h'' \<Rightarrow>
                  trajectories_at this h'' initialState startTime finalTime out concatOutput =
                  trajectories_at this h' initialState startTime finalTime out concatOutput) \<and>
             (case initializeModel_at Base_initializeModel logicRulesMachine partitionIndex
                     algorithmName this h' of
                None \<Rightarrow> False
              | Some h'' \<Rightarrow>
                  trajectories_at c h'' initialState startTime finalTime out concatOutput =
                  trajectories_at c h' initialState startTime finalTime out concatOutput)"
  using assms
  by (simp add: clone_def operator_new_def initializeModel_at_def trajectories_at_valid
      nth_append copy_members getSystemOperatingTrajectories_cases)

theorem clone_is_independent_witness:
  "(let original = SystemOperatingPoint_ctor (Base_unbound :: string SystemOperatingTrajectoriesBase)
                     [1, -1::real] [1/2::real];
        other = SystemOperatingPoint_ctor Base_unbound [7, 7] [7];
        out = \<lparr>timeTrajectory = [], stateTrajectory = [], inputTrajectory = []\<rparr>;
        expected = Some \<lparr>timeTrajectory = [0, 2::real], stateTrajectory = [[1, -1], [1, -1]],
                         inputTrajectory = [[1/2], [1/2]]\<rparr>
    in (0::nat) < length [original] \<and>
       clone (\<lambda>b. b) [original] 0 = Some (1, [original, original]) \<and>
       trajectories_at 0 [original, original] [0, 0] 0 2 out False = expected \<and>
       trajectories_at 0 [original, other] [0, 0] 0 2 out False = expected \<and>
       trajectories_at 1 [other, original] [0, 0] 0 2 out False = expected \<and>
       initializeModel_at Base_bind ''lookup'' 3 None 1 [original, original] =
         Some [original, original\<lparr>Base := \<lparr>binding = Some (''lookup'', 3)\<rparr>\<rparr>] \<and>
       trajectories_at 0 [original, original\<lparr>Base := \<lparr>binding = Some (''lookup'', 3)\<rparr>\<rparr>]
         [0, 0] 0 2 out False = expected)"
proof -
  let ?obj = "SystemOperatingPoint_ctor (Base_unbound :: string SystemOperatingTrajectoriesBase)
                [1, -1::real] [1/2::real]"
  have valid: "(0::nat) < length [?obj]" by simp
  have c: "clone (\<lambda>b. b) [?obj] 0 = Some (1, [?obj, ?obj])"
    by (simp add: clone_def operator_new_def SystemOperatingPoint_copy_def
        SystemOperatingPoint_ctor_def)
  have e: "trajectories_at 0 [?obj, ?obj] [0, 0] (0::real) 2
             \<lparr>timeTrajectory = [], stateTrajectory = [], inputTrajectory = []\<rparr> False =
           Some \<lparr>timeTrajectory = [0, 2::real], stateTrajectory = [[1, -1], [1, -1]],
                 inputTrajectory = [[1/2], [1/2]]\<rparr>"
    by (simp add: trajectories_at_valid getSystemOperatingTrajectories_override
        SystemOperatingPoint_ctor_def)
  have b: "initializeModel_at Base_bind ''lookup'' 3 None (Suc 0) [?obj, ?obj] =
             Some [?obj, ?obj\<lparr>Base := \<lparr>binding = Some (''lookup'', 3)\<rparr>\<rparr>]"
    by (simp add: initializeModel_at_def initializeModel_def Base_bind_def Base_unbound_def
        SystemOperatingPoint_ctor_def)
  show ?thesis
    using valid
      clone_is_independent
        [OF valid, where Base_copy = "\<lambda>b. b" and initialState = "[0, 0]" and startTime = "0::real"
           and finalTime = 2 and concatOutput = False
           and out = "\<lparr>timeTrajectory = [], stateTrajectory = [], inputTrajectory = []\<rparr>"
           and v = "SystemOperatingPoint_ctor Base_unbound [7, 7] [7]"
           and Base_initializeModel = Base_bind and logicRulesMachine = "''lookup''"
           and partitionIndex = 3 and algorithmName = None]
    by (simp add: Let_def c b e)
qed

text \<open>
  C6. An object built by the default constructor and an object built from an
  all-zero state vector of dimension \<open>STATE_DIM\<close> and an all-zero input vector of
  dimension \<open>INPUT_DIM\<close> give the same result for every list of arguments.
\<close>

theorem default_is_all_zero:
  assumes "all_zero_vector STATE_DIM stateOperatingPoint"
    and "all_zero_vector INPUT_DIM inputOperatingPoint"
  shows "getSystemOperatingTrajectories
           (SystemOperatingPoint_default STATE_DIM INPUT_DIM Base_ctor)
           initialState startTime finalTime out concatOutput =
         getSystemOperatingTrajectories
           (SystemOperatingPoint_ctor Base_ctor stateOperatingPoint inputOperatingPoint)
           initialState startTime finalTime out concatOutput"
  using assms by (simp add: all_zero_vector_Zero SystemOperatingPoint_default_def)

theorem default_is_all_zero_witness:
  "all_zero_vector 2 [0, 0::real] \<and> all_zero_vector 1 [0::real] \<and>
   getSystemOperatingTrajectories (SystemOperatingPoint_default 2 1 Base_unbound)
     [1, 2] (0::real) 2
     \<lparr>timeTrajectory = [], stateTrajectory = [], inputTrajectory = []\<rparr> False =
   getSystemOperatingTrajectories (SystemOperatingPoint_ctor Base_unbound [0, 0::real] [0::real])
     [1, 2] (0::real) 2
     \<lparr>timeTrajectory = [], stateTrajectory = [], inputTrajectory = []\<rparr> False"
proof -
  have s: "all_zero_vector 2 [0, 0::real]" and i: "all_zero_vector 1 [0::real]"
    by (simp_all add: all_zero_vector_def)
  show ?thesis
    using s i default_is_all_zero [OF s i] by simp
qed

text \<open>
  C7, as stated, fails. The claim asks, for \<open>concatOutput = true\<close>, only that every
  time value already in the container is at most \<open>startTime\<close>. The container
  \<open>[5, 1]\<close> meets that for \<open>startTime = 6\<close> and \<open>finalTime = 7\<close>, and the call
  leaves \<open>[5, 1, 6, 7]\<close>, which is not non-decreasing: the method appends and never
  looks at what the container holds.
\<close>

theorem concat_unsorted_prior_counterexample:
  "(6::real) \<le> 7 \<and> (5::real) \<le> 6 \<and> (1::real) \<le> 6 \<and>
   \<not> non_decreasing
        (timeTrajectory
          (snd (getSystemOperatingTrajectories
                  (SystemOperatingPoint_ctor Base_unbound [0::real] [0::real]) [0] (6::real) 7
                  \<lparr>timeTrajectory = [5, 1], stateTrajectory = [[0], [0]],
                   inputTrajectory = [[0], [0]]\<rparr> True)))"
  by (simp add: getSystemOperatingTrajectories_concat)

text \<open>
  C7, amended. A call keeps the three containers aligned if they were; and if
  \<open>startTime \<le> finalTime\<close> and either \<open>concatOutput = false\<close>, or
  \<open>concatOutput = true\<close>, the time sequence in the container is non-decreasing and
  every time value in it is at most \<open>startTime\<close>, then the time sequence the call
  leaves is non-decreasing.
\<close>

theorem call_preserves_trajectory_invariant:
  fixes startTime finalTime :: "'t::ord"
  shows "(aligned out \<longrightarrow>
            aligned (snd (getSystemOperatingTrajectories this initialState startTime finalTime
                            out concatOutput))) \<and>
         (startTime \<le> finalTime \<and>
          (\<not> concatOutput \<or>
           concatOutput \<and> non_decreasing (timeTrajectory out) \<and>
             (\<forall>t \<in> set (timeTrajectory out). t \<le> startTime)) \<longrightarrow>
            non_decreasing
              (timeTrajectory
                (snd (getSystemOperatingTrajectories this initialState startTime finalTime
                        out concatOutput))))"
  by (cases concatOutput)
     (simp_all add: getSystemOperatingTrajectories_cases aligned_def non_decreasing_append2)

theorem call_preserves_trajectory_invariant_witness:
  "(let out = \<lparr>timeTrajectory = [0, 1::real], stateTrajectory = [[9::real], [8]],
               inputTrajectory = [[7::real], [6]]\<rparr>;
        out' = snd (getSystemOperatingTrajectories
                      (SystemOperatingPoint_ctor Base_unbound [5] [4]) [0] 1 2 out True)
    in aligned out \<and> (1::real) \<le> 2 \<and> non_decreasing (timeTrajectory out) \<and>
       (\<forall>t \<in> set (timeTrajectory out). t \<le> 1) \<and>
       aligned out' \<and> non_decreasing (timeTrajectory out') \<and>
       timeTrajectory out' = [0, 1, 1, 2])"
  using call_preserves_trajectory_invariant
    [of "\<lparr>timeTrajectory = [0, 1::real], stateTrajectory = [[9::real], [8]],
          inputTrajectory = [[7::real], [6]]\<rparr>"
        "SystemOperatingPoint_ctor Base_unbound [5] [4]" "[0]" 1 2 True]
  by (simp add: Let_def aligned_def getSystemOperatingTrajectories_concat)

text \<open>
  C8. On an object that has only been constructed, \<open>getSystemOperatingTrajectories\<close>
  returns: the first equation gives the object and the containers it returns, for
  every base class. The containers are those the call leaves on the same object after
  \<open>initializeModel\<close>, and after any history of calls.
\<close>

theorem unbound_behaves_as_bound:
  "getSystemOperatingTrajectories
     (SystemOperatingPoint_ctor Base_ctor stateOperatingPoint inputOperatingPoint)
     initialState startTime finalTime out concatOutput =
     (SystemOperatingPoint_ctor Base_ctor stateOperatingPoint inputOperatingPoint,
      \<lparr>timeTrajectory =
         (if concatOutput then timeTrajectory out else []) @ [startTime, finalTime],
       stateTrajectory =
         (if concatOutput then stateTrajectory out else [])
         @ [stateOperatingPoint, stateOperatingPoint],
       inputTrajectory =
         (if concatOutput then inputTrajectory out else [])
         @ [inputOperatingPoint, inputOperatingPoint]\<rparr>) \<and>
   snd (getSystemOperatingTrajectories
          (initializeModel Base_initializeModel logicRulesMachine partitionIndex algorithmName
             (SystemOperatingPoint_ctor Base_ctor stateOperatingPoint inputOperatingPoint))
          initialState startTime finalTime out concatOutput) =
   snd (getSystemOperatingTrajectories
          (SystemOperatingPoint_ctor Base_ctor stateOperatingPoint inputOperatingPoint)
          initialState startTime finalTime out concatOutput) \<and>
   snd (getSystemOperatingTrajectories
          (fst (calls Base_initializeModel cs
                  (SystemOperatingPoint_ctor Base_ctor stateOperatingPoint inputOperatingPoint,
                   out0)))
          initialState startTime finalTime out concatOutput) =
   snd (getSystemOperatingTrajectories
          (SystemOperatingPoint_ctor Base_ctor stateOperatingPoint inputOperatingPoint)
          initialState startTime finalTime out concatOutput)"
proof -
  let ?this = "SystemOperatingPoint_ctor Base_ctor stateOperatingPoint inputOperatingPoint"
  have "stateOperatingPoint_m ?this = stateOperatingPoint"
    and "inputOperatingPoint_m ?this = inputOperatingPoint"
    by (simp_all add: SystemOperatingPoint_ctor_def)
  then show ?thesis
    by (simp add: getSystemOperatingTrajectories_cases initializeModel_members calls_members)
qed

text \<open>
  C9. Neither \<open>initializeModel\<close> nor \<open>getSystemOperatingTrajectories\<close> changes
  \<open>stateOperatingPoint_\<close> or \<open>inputOperatingPoint_\<close>, and after any list of such
  calls the two members hold what the constructor was given.
\<close>

theorem operating_point_is_fixed:
  "stateOperatingPoint_m
     (initializeModel Base_initializeModel logicRulesMachine partitionIndex algorithmName this) =
     stateOperatingPoint_m this \<and>
   inputOperatingPoint_m
     (initializeModel Base_initializeModel logicRulesMachine partitionIndex algorithmName this) =
     inputOperatingPoint_m this \<and>
   stateOperatingPoint_m
     (fst (getSystemOperatingTrajectories this initialState startTime finalTime out concatOutput)) =
     stateOperatingPoint_m this \<and>
   inputOperatingPoint_m
     (fst (getSystemOperatingTrajectories this initialState startTime finalTime out concatOutput)) =
     inputOperatingPoint_m this \<and>
   stateOperatingPoint_m
     (fst (calls Base_initializeModel cs
             (SystemOperatingPoint_ctor Base_ctor stateOperatingPoint inputOperatingPoint, out))) =
     stateOperatingPoint \<and>
   inputOperatingPoint_m
     (fst (calls Base_initializeModel cs
             (SystemOperatingPoint_ctor Base_ctor stateOperatingPoint inputOperatingPoint, out))) =
     inputOperatingPoint"
  by (simp add: initializeModel_members getSystemOperatingTrajectories_this calls_members
      SystemOperatingPoint_ctor_def)

text \<open>
  C10. For \<open>startTime > finalTime\<close> the call returns as for any other bounds: it
  appends \<open>startTime\<close> and then \<open>finalTime\<close>, in that order, and the two
  operating-point samples, so the time sequence it leaves is not non-decreasing.
\<close>

theorem reversed_bounds_are_emitted:
  fixes startTime finalTime :: "'t::preorder"
  assumes "finalTime < startTime"
  shows "let out' = snd (getSystemOperatingTrajectories this initialState startTime finalTime
                           out concatOutput)
         in timeTrajectory out' =
              (if concatOutput then timeTrajectory out else []) @ [startTime, finalTime] \<and>
            stateTrajectory out' =
              (if concatOutput then stateTrajectory out else [])
              @ [stateOperatingPoint_m this, stateOperatingPoint_m this] \<and>
            inputTrajectory out' =
              (if concatOutput then inputTrajectory out else [])
              @ [inputOperatingPoint_m this, inputOperatingPoint_m this] \<and>
            \<not> non_decreasing (timeTrajectory out')"
proof -
  from assms have "\<not> startTime \<le> finalTime"
    by (simp add: less_le_not_le)
  then show ?thesis
    by (simp add: getSystemOperatingTrajectories_cases Let_def non_decreasing_append2)
qed

theorem reversed_bounds_are_emitted_witness:
  "(1::real) < 3 \<and>
   snd (getSystemOperatingTrajectories
          (SystemOperatingPoint_ctor Base_unbound [1, -1::real] [1/2::real])
          [0, 0] (3::real) 1
          \<lparr>timeTrajectory = [9], stateTrajectory = [], inputTrajectory = []\<rparr> False) =
     \<lparr>timeTrajectory = [3, 1], stateTrajectory = [[1, -1], [1, -1]],
      inputTrajectory = [[1/2], [1/2]]\<rparr> \<and>
   \<not> non_decreasing [3, 1::real]"
proof -
  have lt: "(1::real) < 3" by simp
  show ?thesis
    using lt reversed_bounds_are_emitted
      [OF lt, of "SystemOperatingPoint_ctor Base_unbound [1, -1::real] [1/2::real]" "[0, 0]"
         "\<lparr>timeTrajectory = [9], stateTrajectory = [], inputTrajectory = []\<rparr>" False]
    by (simp add: Let_def getSystemOperatingTrajectories_override SystemOperatingPoint_ctor_def)
qed

end
